theory Spec2Isabelle
  imports Complex_Main "HOL-Library.Sublist"
begin

section \<open>OpsBot: the incident control loop of \<open>opsbot.py\<close>\<close>

text \<open>
  The agent samples a CPU metric, compares it with a threshold, and on a breach outside
  the cooldown period analyses logs, restarts a container, notifies and records the
  incident. Every call the agent makes to the outside world (status file, log analysis,
  container runtime, Slack, incident database) is an \<open>event\<close> appended to a trace; every
  answer of the outside world is a field of an environment record. Python floats are
  modelled as reals, with the non-finite values kept where the source parses text into
  a float. Console output (\<open>print\<close>) is not modelled, with one exception: the \<open>print\<close>
  that opens the \<open>except\<close> branch of \<open>monitor_cpu_once\<close> may raise, since it decides
  whether an exception of the sampling stays inside that function.
\<close>

subsection \<open>Strings and \<open>int()\<close>\<close>

text \<open>
  A character is a code point below 256. The white space of \<open>str.strip\<close> and of
  \<open>int()\<close> in that range is the ASCII white space, the four separators 28 to 31, the
  next-line character 133 and the no-break space 160; the only decimal digits in that
  range are the ASCII ones.
\<close>

definition is_space :: "char \<Rightarrow> bool" where
  "is_space c = (of_char c \<in> {9, 10, 11, 12, 13, 28, 29, 30, 31, 32, 133, 160 :: nat})"

definition strip :: "string \<Rightarrow> string" where
  "strip s = rev (dropWhile is_space (rev (dropWhile is_space s)))"

definition is_digit :: "char \<Rightarrow> bool" where
  "is_digit c = (48 \<le> (of_char c :: nat) \<and> (of_char c :: nat) \<le> 57)"

text \<open>
  \<open>str.lower\<close>: the upper-case letters below 256 are 65 to 90 and 192 to 222 without
  the multiplication sign 215.
\<close>

definition lower_char :: "char \<Rightarrow> char" where
  "lower_char c =
     (if (65 \<le> (of_char c :: nat) \<and> (of_char c :: nat) \<le> 90)
         \<or> (192 \<le> (of_char c :: nat) \<and> (of_char c :: nat) \<le> 222 \<and> (of_char c :: nat) \<noteq> 215)
      then char_of (of_char c + 32 :: nat) else c)"

definition lower :: "string \<Rightarrow> string" where
  "lower s = map lower_char s"

text \<open>
  Decimal digits with single underscores between digits, as \<open>int()\<close> accepts them; the
  flag says whether the previous character was a digit.
\<close>

fun parse_digits :: "nat \<Rightarrow> bool \<Rightarrow> string \<Rightarrow> nat option" where
  "parse_digits acc prev [] = (if prev then Some acc else None)"
| "parse_digits acc prev (c # cs) =
     (if is_digit c then parse_digits (10 * acc + (of_char c - 48)) True cs
      else if c = CHR ''_'' \<and> prev then parse_digits acc False cs
      else None)"

text \<open>
  \<open>int(s)\<close> for a string: \<open>None\<close> is the \<open>ValueError\<close>, which is also raised for more
  than 4300 digits (the default of \<open>sys.int_max_str_digits\<close>).
\<close>

definition py_int :: "string \<Rightarrow> int option" where
  "py_int s =
     (if length (filter is_digit (strip s)) > 4300 then None
      else case strip s of
        [] \<Rightarrow> None
      | c # r \<Rightarrow>
          if c = CHR ''+'' then map_option int (parse_digits 0 False r)
          else if c = CHR ''-'' then map_option (\<lambda>n. - int n) (parse_digits 0 False r)
          else map_option int (parse_digits 0 False (c # r)))"

subsection \<open>Module configuration\<close>

text \<open>
  The globals set while the module loads. \<open>prom\<close> is whether the Prometheus connection
  test succeeded (\<open>prom = None\<close> otherwise).
\<close>

record config =
  API_KEY :: "string option"
  SLACK_WEBHOOK_URL :: "string option"
  THRESHOLD :: int
  CONTAINER_NAME :: string
  prom :: bool

definition MONITORING_INTERVAL :: nat where
  "MONITORING_INTERVAL = 30"

definition SPIKE_SIMULATION_CHANCE :: real where
  "SPIKE_SIMULATION_CHANCE = 1 / 10"

text \<open>\<open>os.getenv(key, default)\<close> and \<open>os.getenv(key)\<close>.\<close>

definition getenv :: "(string \<rightharpoonup> string) \<Rightarrow> string \<Rightarrow> string \<Rightarrow> string" where
  "getenv environ key dflt = (case environ key of None \<Rightarrow> dflt | Some v \<Rightarrow> v)"

text \<open>
  Lines 14 to 17 and 49 to 57 of the module: \<open>None\<close> when \<open>int()\<close> raises on the value of
  \<open>CPU_THRESHOLD\<close>, which ends the process while it starts.
\<close>

definition load_config :: "(string \<rightharpoonup> string) \<Rightarrow> bool \<Rightarrow> config option" where
  "load_config environ prom_ok =
     (case py_int (getenv environ ''CPU_THRESHOLD'' ''80'') of
        None \<Rightarrow> None
      | Some t \<Rightarrow>
          Some \<lparr>API_KEY = environ ''OPENAI_API_KEY'',
                SLACK_WEBHOOK_URL = environ ''SLACK_WEBHOOK_URL'',
                THRESHOLD = t,
                CONTAINER_NAME = getenv environ ''CONTAINER_NAME'' ''test-container'',
                prom = prom_ok\<rparr>)"

text \<open>Truthiness of an optional string (\<open>if API_KEY:\<close>).\<close>

definition truthy :: "string option \<Rightarrow> bool" where
  "truthy v = (case v of None \<Rightarrow> False | Some s \<Rightarrow> s \<noteq> [])"

subsection \<open>Status records, events and the agent's state\<close>

datatype jvalue = JFloat real | JInt int | JStr string | JBool bool

type_synonym ui_data = "string \<rightharpoonup> jvalue"

text \<open>
  The calls the agent makes, in the order it makes them. \<open>SetLastSpikeTime\<close> logs the
  assignment to \<open>last_spike_time\<close> in the monitoring loop, so that its place among the
  calls can be read off the trace.
\<close>

datatype event =
    Publish ui_data
  | Diagnose
  | Remediate
  | Notify string string
  | RecordIncident string string real
  | SetLastSpikeTime real

record agent_state =
  running :: bool
  cycle_count :: nat
  last_spike_time :: real
  trace :: "event list"

text \<open>
  \<open>update_ui_data\<close>: \<open>data.update\<close> writes the four stamped keys over the caller's
  dictionary (\<open>stamp\<close>; the flag is the global \<open>running\<close>), which is then handed to
  \<open>json.dump\<close>; the event is that dictionary. A failure while writing is swallowed by
  the function and changes nothing else.
\<close>

definition stamp :: "config \<Rightarrow> string \<Rightarrow> bool \<Rightarrow> ui_data \<Rightarrow> ui_data" where
  "stamp cfg ctime active data =
     data ++ [''last_updated'' \<mapsto> JStr ctime,
              ''container_name'' \<mapsto> JStr (CONTAINER_NAME cfg),
              ''threshold'' \<mapsto> JInt (THRESHOLD cfg),
              ''monitoring_active'' \<mapsto> JBool active]"

definition update_ui_data :: "config \<Rightarrow> string \<Rightarrow> ui_data \<Rightarrow> agent_state \<Rightarrow> agent_state" where
  "update_ui_data cfg ctime data st =
     st\<lparr>trace := trace st @ [Publish (stamp cfg ctime (running st) data)]\<rparr>"

subsection \<open>Sampling\<close>

datatype pyfloat = Fin real | NaN | PosInf | NegInf

text \<open>
  What \<open>float(result[0]['value'][1])\<close> makes of the first row of a query result:
  a float, or an exception (\<open>Malformed\<close>).
\<close>

datatype sample_value = Parsed pyfloat | Malformed

datatype prom_response = PromRaises | PromResult "sample_value list"

text \<open>
  The three queries of the loop, in the source's order, and the raw query of the
  fallback:
  \<^item> \<open>IdleRateByInstance5m\<close>: 100 - (avg by (instance) (irate(...[5m])) * 100)
  \<^item> \<open>IdleRate5m\<close>: 100 - (avg(irate(...[5m])) * 100)
  \<^item> \<open>IdleRateByInstance1m\<close>: avg(100 - (avg by (instance) (irate(...[1m])) * 100))
  \<^item> \<open>NodeCpuSecondsTotal\<close>: node_cpu_seconds_total
\<close>

datatype prom_query =
  IdleRateByInstance5m | IdleRate5m | IdleRateByInstance1m | NodeCpuSecondsTotal

definition queries :: "prom_query list" where
  "queries = [IdleRateByInstance5m, IdleRate5m, IdleRateByInstance1m]"

text \<open>
  The answers of the outside world to one call of \<open>get_cpu_usage\<close>: the query results,
  \<open>time.time()\<close>, the draws of \<open>random.random()\<close> behind each \<open>random.uniform\<close> and
  behind the spike test, and an exception raised in the unguarded simulation block.
  \<open>error_print\<close> is the answer of the console to the \<open>print\<close> that opens the \<open>except\<close>
  branch of \<open>monitor_cpu_once\<close> (line 124): the exception it raises, if it raises.
\<close>

record metric_env =
  custom_query :: "prom_query \<Rightarrow> prom_response"
  clock :: real
  draw_raw :: real
  draw_noise :: real
  draw_chance :: real
  draw_spike :: real
  sim_exception :: "string option"
  error_print :: "string option"

text \<open>\<open>x % m\<close> on floats, for \<open>m > 0\<close>.\<close>

definition py_fmod :: "real \<Rightarrow> real \<Rightarrow> real" where
  "py_fmod x m = x - m * of_int \<lfloor>x / m\<rfloor>"

text \<open>\<open>random.uniform(a, b)\<close> is \<open>a + (b - a) * random()\<close>.\<close>

definition uniform :: "real \<Rightarrow> real \<Rightarrow> real \<Rightarrow> real" where
  "uniform a b u = a + (b - a) * u"

text \<open>The sanity check \<open>0 <= cpu_usage <= 100\<close>; every comparison with NaN is false.\<close>

fun sanity_check :: "pyfloat \<Rightarrow> bool" where
  "sanity_check (Fin v) = (0 \<le> v \<and> v \<le> 100)"
| "sanity_check NaN = False"
| "sanity_check PosInf = False"
| "sanity_check NegInf = False"

text \<open>
  One pass of the loop body: the value of the first row when the result is non-empty,
  parses and passes the sanity check; otherwise the loop goes on (\<open>None\<close>).
\<close>

fun accepted_value :: "prom_response \<Rightarrow> real option" where
  "accepted_value PromRaises = None"
| "accepted_value (PromResult []) = None"
| "accepted_value (PromResult (Malformed # rows)) = None"
| "accepted_value (PromResult (Parsed (Fin v) # rows)) =
     (if sanity_check (Fin v) then Some v else None)"
| "accepted_value (PromResult (Parsed f # rows)) = None"

fun try_queries :: "metric_env \<Rightarrow> prom_query list \<Rightarrow> real option" where
  "try_queries env [] = None"
| "try_queries env (q # qs) =
     (case accepted_value (custom_query env q) of
        Some v \<Rightarrow> Some v
      | None \<Rightarrow> try_queries env qs)"

text \<open>Lines 80 to 87: a value made up from the time when the raw query returns rows.\<close>

definition raw_fallback :: "metric_env \<Rightarrow> real" where
  "raw_fallback env =
     (let base_usage = 15 + py_fmod (clock env) 30
      in min (base_usage + uniform (- 5) 15 (draw_raw env)) 95)"

text \<open>Lines 92 to 107: simulation mode.\<close>

definition simulation :: "metric_env \<Rightarrow> string + real" where
  "simulation env =
     (case sim_exception env of
        Some e \<Rightarrow> Inl e
      | None \<Rightarrow>
          (let time_factor = py_fmod (clock env) 300;
               base_usage = 20 + 15 * sin (time_factor / 50);
               noise = uniform (- 8) 12 (draw_noise env)
           in if draw_chance env < SPIKE_SIMULATION_CHANCE
              then Inr (uniform 85 95 (draw_spike env))
              else Inr (max 5 (min 95 (base_usage + noise)))))"

definition get_cpu_usage :: "config \<Rightarrow> metric_env \<Rightarrow> string + real" where
  "get_cpu_usage cfg env =
     (if prom cfg then
        (case try_queries env queries of
           Some v \<Rightarrow> Inr v
         | None \<Rightarrow>
             (case custom_query env NodeCpuSecondsTotal of
                PromRaises \<Rightarrow> simulation env
              | PromResult rows \<Rightarrow>
                  if rows \<noteq> [] then Inr (raw_fallback env) else simulation env))
      else simulation env)"

text \<open>
  \<open>monitor_cpu_once\<close>: \<open>Inl\<close> is an exception that leaves the function. An exception
  in the \<open>try\<close> block is an exception of \<open>get_cpu_usage\<close>. The \<open>except\<close> branch prints
  the error before it publishes and returns, so an exception raised by that \<open>print\<close>
  leaves the function with nothing published.
\<close>

definition monitor_cpu_once ::
  "config \<Rightarrow> metric_env \<Rightarrow> string \<Rightarrow> agent_state
     \<Rightarrow> string + ((bool \<times> real) \<times> agent_state)" where
  "monitor_cpu_once cfg env ctime st =
     (case get_cpu_usage cfg env of
        Inr cpu_usage \<Rightarrow>
          if cpu_usage > real_of_int (THRESHOLD cfg)
          then Inr ((True, cpu_usage),
                update_ui_data cfg ctime
                  [''cpu_usage'' \<mapsto> JFloat cpu_usage, ''status'' \<mapsto> JStr ''Spike Detected''] st)
          else Inr ((False, cpu_usage),
                update_ui_data cfg ctime
                  [''cpu_usage'' \<mapsto> JFloat cpu_usage, ''status'' \<mapsto> JStr ''Normal''] st)
      | Inl e \<Rightarrow>
          (case error_print env of
             Some e' \<Rightarrow> Inl e'
           | None \<Rightarrow>
               Inr ((False, 0),
                 update_ui_data cfg ctime
                   [''cpu_usage'' \<mapsto> JInt 0, ''status'' \<mapsto> JStr ''Monitoring Error''] st)))"

subsection \<open>Root cause analysis\<close>

text \<open>
  The answers to one call of \<open>analyze_logs\<close>: an exception raised by the file
  operations, the content of the log file when it exists, and the answer of the
  completion service (an exception, or the content of the first choice).
\<close>

record diag_env =
  fs_exception :: "string option"
  log_file :: "string option"
  openai :: "string + string"

definition join :: "string \<Rightarrow> string list \<Rightarrow> string" where
  "join sep xs = (case xs of [] \<Rightarrow> [] | y # ys \<Rightarrow> y @ concat (map (\<lambda>z. sep @ z) ys))"

definition sample_logs :: "config \<Rightarrow> string \<Rightarrow> string list" where
  "sample_logs cfg ctime =
     [ctime @ '': System boot completed'',
      ctime @ '': Container '' @ CONTAINER_NAME cfg @ '' started'',
      ctime @ '': High CPU usage detected in process'',
      ctime @ '': Memory pressure increasing'',
      ctime @ '': Multiple worker processes spawned'',
      ctime @ '': Disk I/O operations intensive'',
      ctime @ '': Network connections multiplying'']"

text \<open>The keyword classifier used when no API key is set.\<close>

definition simulated_analysis :: "string \<Rightarrow> string" where
  "simulated_analysis logs =
     (if sublist ''worker processes'' (lower logs)
      then ''Multiple worker processes causing CPU overload''
      else if sublist ''memory pressure'' (lower logs)
      then ''Memory pressure leading to excessive swapping''
      else if sublist ''network connections'' (lower logs)
      then ''High network activity overwhelming system''
      else ''Process inefficiency in container workload'')"

text \<open>The body of the \<open>try\<close> block: \<open>Inl\<close> is the exception it raises.\<close>

definition analyze_logs_body :: "config \<Rightarrow> string \<Rightarrow> diag_env \<Rightarrow> string + string" where
  "analyze_logs_body cfg ctime d =
     (case fs_exception d of
        Some e \<Rightarrow> Inl e
      | None \<Rightarrow>
          (let logs = (case log_file d of
                         None \<Rightarrow> join [CHR 0x0A] (sample_logs cfg ctime)
                       | Some content \<Rightarrow> content);
               logs = (if length logs > 3000 then drop (length logs - 3000) logs else logs)
           in if truthy (API_KEY cfg)
              then (case openai d of Inl e \<Rightarrow> Inl e | Inr content \<Rightarrow> Inr (strip content))
              else Inr (simulated_analysis logs)))"

definition analyze_logs :: "config \<Rightarrow> string \<Rightarrow> diag_env \<Rightarrow> string" where
  "analyze_logs cfg ctime d =
     (case analyze_logs_body cfg ctime d of
        Inr analysis \<Rightarrow> analysis
      | Inl e \<Rightarrow> ''Log analysis failed: '' @ e)"

subsection \<open>Remediation, notification, incident log\<close>

text \<open>
  \<open>subprocess.run\<close>: the call raises (the program cannot be started), or completes
  with a return code and its captured output.
\<close>

datatype proc_result = ProcRaises string | Completed int string

record docker_env =
  docker_ps :: proc_result
  docker_run :: proc_result
  docker_restart :: proc_result

text \<open>\<open>check=True\<close>: a non-zero return code raises \<open>CalledProcessError\<close>.\<close>

fun checked :: "proc_result \<Rightarrow> bool" where
  "checked (ProcRaises e) = False"
| "checked (Completed rc out) = (rc = 0)"

text \<open>
  Lines 192 to 216 of \<open>remediate\<close>: whether the \<open>try\<close> block reaches the end of the
  restart without an exception.
\<close>

definition restart_container :: "config \<Rightarrow> docker_env \<Rightarrow> bool" where
  "restart_container cfg d =
     (case docker_ps d of
        ProcRaises e \<Rightarrow> False
      | Completed rc out \<Rightarrow>
          (if \<not> sublist (CONTAINER_NAME cfg) out
           then checked (docker_run d) \<and> checked (docker_restart d)
           else checked (docker_restart d)))"

definition remediate ::
  "config \<Rightarrow> docker_env \<Rightarrow> string \<Rightarrow> agent_state \<Rightarrow> bool \<times> agent_state" where
  "remediate cfg d ctime st =
     (if restart_container cfg d
      then (True,
            update_ui_data cfg ctime
              [''status'' \<mapsto> JStr ''Remediation Complete'', ''cpu_usage'' \<mapsto> JFloat 25] st)
      else (False, st))"

text \<open>
  \<open>notify\<close> and \<open>log_incident\<close> swallow every exception of the transport and of the
  database; the events are the calls with their arguments.
\<close>

definition notify :: "string \<Rightarrow> string \<Rightarrow> agent_state \<Rightarrow> agent_state" where
  "notify cause action st = st\<lparr>trace := trace st @ [Notify cause action]\<rparr>"

definition log_incident :: "string \<Rightarrow> string \<Rightarrow> real \<Rightarrow> agent_state \<Rightarrow> agent_state" where
  "log_incident cause action cpu_usage st =
     st\<lparr>trace := trace st @ [RecordIncident cause action cpu_usage]\<rparr>"

subsection \<open>The agent\<close>

datatype signal_point = NoSignal | SignalBeforeSampling | SignalWhileSleeping

text \<open>
  The answers of the outside world during one monitoring cycle. \<open>now\<close> is \<open>time.time()\<close>
  at the cooldown test, \<open>ctime\<close> the text of \<open>time.ctime()\<close> during the cycle. \<open>signal\<close>
  says when \<open>signal_handler\<close> runs, if it does; \<open>sleep_exception\<close> is an exception
  raised while the loop sleeps.
\<close>

record cycle_env =
  metrics :: metric_env
  now :: real
  ctime :: string
  diagnosis :: diag_env
  docker :: docker_env
  sleep_exception :: "string option"
  signal :: signal_point

definition success_action :: "config \<Rightarrow> string" where
  "success_action cfg =
     ''Container '' @ [CHR 0x27] @ CONTAINER_NAME cfg @ [CHR 0x27] @ '' restarted successfully''"

definition failure_action :: string where
  "failure_action = ''Automatic remediation failed - manual intervention required''"

definition handle_cpu_spike ::
  "config \<Rightarrow> cycle_env \<Rightarrow> real \<Rightarrow> agent_state \<Rightarrow> bool \<times> agent_state" where
  "handle_cpu_spike cfg e cpu_usage st =
     (let st1 = update_ui_data cfg (ctime e)
                  [''cpu_usage'' \<mapsto> JFloat cpu_usage, ''status'' \<mapsto> JStr ''Analyzing...''] st;
          cause = analyze_logs cfg (ctime e) (diagnosis e);
          st2 = st1\<lparr>trace := trace st1 @ [Diagnose]\<rparr>;
          st3 = update_ui_data cfg (ctime e)
                  [''cpu_usage'' \<mapsto> JFloat cpu_usage, ''status'' \<mapsto> JStr ''Remediating...''] st2;
          (ok, st4) = remediate cfg (docker e) (ctime e) (st3\<lparr>trace := trace st3 @ [Remediate]\<rparr>)
      in if ok then
           (let action = success_action cfg;
                st5 = notify cause action st4;
                st6 = log_incident cause action cpu_usage st5
            in (True, st6))
         else
           (let action = failure_action;
                st5 = notify cause action st4;
                st6 = log_incident cause action cpu_usage st5;
                st7 = update_ui_data cfg (ctime e)
                        [''status'' \<mapsto> JStr ''Intervention Needed'',
                         ''cpu_usage'' \<mapsto> JFloat cpu_usage] st6
            in (False, st7)))"

text \<open>
  The \<open>try\<close> block of the loop up to the sleep: count the cycle, sample, and on a spike
  either handle it and then set \<open>last_spike_time\<close>, or publish the cooldown. When
  \<open>monitor_cpu_once\<close> raises, the block is left there: \<open>cycle_body\<close> is the state reached
  in the block, \<open>body_exception\<close> the exception that leaves it.
\<close>

definition cycle_body :: "config \<Rightarrow> cycle_env \<Rightarrow> agent_state \<Rightarrow> agent_state" where
  "cycle_body cfg e st =
     (let st1 = st\<lparr>cycle_count := cycle_count st + 1\<rparr>
      in case monitor_cpu_once cfg (metrics e) (ctime e) st1 of
           Inl msg \<Rightarrow> st1
         | Inr ((spike_detected, cpu_usage), st2) \<Rightarrow>
             if spike_detected then
               (let current_time = now e
                in if current_time - last_spike_time st2 > 120 then
                     (let (ok, st3) = handle_cpu_spike cfg e cpu_usage st2
                      in st3\<lparr>last_spike_time := current_time,
                             trace := trace st3 @ [SetLastSpikeTime current_time]\<rparr>)
                   else update_ui_data cfg (ctime e)
                          [''cpu_usage'' \<mapsto> JFloat cpu_usage, ''status'' \<mapsto> JStr ''Cooldown''] st2)
             else st2)"

definition body_exception :: "config \<Rightarrow> cycle_env \<Rightarrow> agent_state \<Rightarrow> string option" where
  "body_exception cfg e st =
     (case monitor_cpu_once cfg (metrics e) (ctime e) (st\<lparr>cycle_count := cycle_count st + 1\<rparr>) of
        Inl msg \<Rightarrow> Some msg
      | Inr r \<Rightarrow> None)"

text \<open>
  The sleep of \<open>MONITORING_INTERVAL\<close> seconds, polled every second: it ends at once when
  \<open>running\<close> is already false, it raises when the environment says so, and a signal
  during it clears \<open>running\<close>.
\<close>

definition sleep_until_next_check :: "cycle_env \<Rightarrow> agent_state \<Rightarrow> string + agent_state" where
  "sleep_until_next_check e st =
     (if \<not> running st then Inr st
      else case sleep_exception e of
             Some msg \<Rightarrow> Inl msg
           | None \<Rightarrow> Inr (st\<lparr>running := (signal e \<noteq> SignalWhileSleeping)\<rparr>))"

text \<open>
  One pass of the \<open>while\<close> loop, with its \<open>except Exception\<close> handler, which is
  reached by an exception that leaves the body or the sleep. The module replaces the
  default handler of the interrupt signal by \<open>signal_handler\<close>, so \<open>KeyboardInterrupt\<close>
  does not arise.
\<close>

definition monitoring_cycle :: "config \<Rightarrow> cycle_env \<Rightarrow> agent_state \<Rightarrow> agent_state" where
  "monitoring_cycle cfg e st =
     (let st0 = (if signal e = SignalBeforeSampling then st\<lparr>running := False\<rparr> else st);
          st1 = cycle_body cfg e st0
      in case (case body_exception cfg e st0 of
                 Some msg \<Rightarrow> Inl msg
               | None \<Rightarrow> sleep_until_next_check e st1) of
           Inr st2 \<Rightarrow> st2
         | Inl msg \<Rightarrow>
             (let st2 = update_ui_data cfg (ctime e)
                          [''status'' \<mapsto> JStr ''Agent Error'', ''error'' \<mapsto> JStr msg] st1
              in st2\<lparr>running := (running st2 \<and> signal e \<noteq> SignalWhileSleeping)\<rparr>))"

text \<open>
  The \<open>while running\<close> loop over the answers of the outside world, one record per
  cycle. \<open>None\<close>: the answers are used up and the loop is still running.
\<close>

fun monitoring_loop :: "config \<Rightarrow> cycle_env list \<Rightarrow> agent_state \<Rightarrow> agent_state option" where
  "monitoring_loop cfg [] st = (if running st then None else Some st)"
| "monitoring_loop cfg (e # es) st =
     (if running st then monitoring_loop cfg es (monitoring_cycle cfg e st) else Some st)"

definition continuous_monitoring ::
  "config \<Rightarrow> cycle_env list \<Rightarrow> agent_state \<Rightarrow> agent_state option" where
  "continuous_monitoring cfg es st =
     monitoring_loop cfg es (st\<lparr>cycle_count := 0, last_spike_time := 0\<rparr>)"

text \<open>The state of the loop after the cycles answered by \<open>es\<close>, finished or not.\<close>

fun run_cycles :: "config \<Rightarrow> cycle_env list \<Rightarrow> agent_state \<Rightarrow> agent_state" where
  "run_cycles cfg [] st = st"
| "run_cycles cfg (e # es) st =
     (if running st then run_cycles cfg es (monitoring_cycle cfg e st) else st)"

text \<open>
  The main block. \<open>signal_before_start\<close>: the handler has run before the block starts;
  \<open>makedirs_exception\<close>: creating the directories raises.
\<close>

record startup_env =
  signal_before_start :: bool
  start_ctime :: string
  makedirs_exception :: "string option"
  stop_ctime :: string

definition cleanup :: "config \<Rightarrow> startup_env \<Rightarrow> agent_state \<Rightarrow> agent_state" where
  "cleanup cfg su st =
     update_ui_data cfg (stop_ctime su)
       [''status'' \<mapsto> JStr ''Stopped'', ''monitoring_active'' \<mapsto> JBool False] st"

definition main :: "config \<Rightarrow> startup_env \<Rightarrow> cycle_env list \<Rightarrow> agent_state option" where
  "main cfg su es =
     (let st0 = \<lparr>running = \<not> signal_before_start su, cycle_count = 0,
                 last_spike_time = 0, trace = []\<rparr>;
          st1 = update_ui_data cfg (start_ctime su)
                  [''cpu_usage'' \<mapsto> JFloat 0, ''status'' \<mapsto> JStr ''Initializing...''] st0
      in case makedirs_exception su of
           Some msg \<Rightarrow>
             Some (cleanup cfg su
                     (update_ui_data cfg (start_ctime su)
                        [''status'' \<mapsto> JStr ''Fatal Error'', ''error'' \<mapsto> JStr msg] st1))
         | None \<Rightarrow> map_option (cleanup cfg su) (continuous_monitoring cfg es st1))"

subsection \<open>Reading a trace\<close>

fun is_publish :: "event \<Rightarrow> bool" where
  "is_publish (Publish d) = True"
| "is_publish ev = False"

text \<open>The events other than status records, and the status records, in order.\<close>

fun calls :: "event list \<Rightarrow> event list" where
  "calls [] = []"
| "calls (Publish d # evs) = calls evs"
| "calls (ev # evs) = ev # calls evs"

fun published :: "event list \<Rightarrow> ui_data list" where
  "published [] = []"
| "published (Publish d # evs) = d # published evs"
| "published (ev # evs) = published evs"

definition status_of :: "ui_data \<Rightarrow> string" where
  "status_of d = (case d ''status'' of Some (JStr s) \<Rightarrow> s | _ \<Rightarrow> [])"

definition statuses :: "event list \<Rightarrow> string list" where
  "statuses evs = map status_of (published evs)"

text \<open>The events a function appends: the trace after it, without the trace before it.\<close>

definition new_events :: "agent_state \<Rightarrow> agent_state \<Rightarrow> event list" where
  "new_events st st' = drop (length (trace st)) (trace st')"

fun handling_times :: "event list \<Rightarrow> real list" where
  "handling_times [] = []"
| "handling_times (SetLastSpikeTime t # evs) = t # handling_times evs"
| "handling_times (ev # evs) = handling_times evs"

text \<open>The last status record of a trace, and one of its fields.\<close>

definition last_status :: "agent_state \<Rightarrow> ui_data option" where
  "last_status st = (case rev (published (trace st)) of [] \<Rightarrow> None | d # ds \<Rightarrow> Some d)"


text \<open>The number a status record carries under \<open>cpu_usage\<close>.\<close>

definition cpu_value :: "ui_data \<Rightarrow> real option" where
  "cpu_value d =
     (case d ''cpu_usage'' of
        Some (JFloat v) \<Rightarrow> Some v
      | Some (JInt i) \<Rightarrow> Some (real_of_int i)
      | _ \<Rightarrow> None)"

text \<open>
  The keys every status record has; the records of the three statuses \<open>Agent Error\<close>,
  \<open>Fatal Error\<close> and \<open>Stopped\<close> have no \<open>cpu_usage\<close>, every other record has one.
\<close>

definition well_formed_status :: "ui_data \<Rightarrow> bool" where
  "well_formed_status d =
     (d ''status'' \<noteq> None \<and> d ''last_updated'' \<noteq> None \<and> d ''container_name'' \<noteq> None
      \<and> d ''threshold'' \<noteq> None \<and> d ''monitoring_active'' \<noteq> None
      \<and> (if status_of d \<in> set [''Agent Error'', ''Fatal Error'', ''Stopped'']
         then d ''cpu_usage'' = None else d ''cpu_usage'' \<noteq> None))"

text \<open>\<open>random.random()\<close> returns a float in the half-open unit interval.\<close>

definition unit_draw :: "real \<Rightarrow> bool" where
  "unit_draw u = (0 \<le> u \<and> u < 1)"

definition random_contract :: "metric_env \<Rightarrow> bool" where
  "random_contract m =
     (unit_draw (draw_raw m) \<and> unit_draw (draw_noise m)
      \<and> unit_draw (draw_chance m) \<and> unit_draw (draw_spike m))"

subsection \<open>The events of one cycle\<close>

text \<open>
  What \<open>handle_cpu_spike\<close> and the body of a cycle append to the trace, written out as
  lists; \<open>handles\<close> is the test under which the loop calls \<open>handle_cpu_spike\<close>. The
  lemmas below prove that the functions append exactly these events.
\<close>

definition handling_events :: "config \<Rightarrow> cycle_env \<Rightarrow> real \<Rightarrow> bool \<Rightarrow> event list" where
  "handling_events cfg e v r =
     [Publish (stamp cfg (ctime e) r [''cpu_usage'' \<mapsto> JFloat v, ''status'' \<mapsto> JStr ''Analyzing...'']),
      Diagnose,
      Publish (stamp cfg (ctime e) r [''cpu_usage'' \<mapsto> JFloat v, ''status'' \<mapsto> JStr ''Remediating...'']),
      Remediate] @
     (if restart_container cfg (docker e)
      then [Publish (stamp cfg (ctime e) r
              [''status'' \<mapsto> JStr ''Remediation Complete'', ''cpu_usage'' \<mapsto> JFloat 25]),
            Notify (analyze_logs cfg (ctime e) (diagnosis e)) (success_action cfg),
            RecordIncident (analyze_logs cfg (ctime e) (diagnosis e)) (success_action cfg) v]
      else [Notify (analyze_logs cfg (ctime e) (diagnosis e)) failure_action,
            RecordIncident (analyze_logs cfg (ctime e) (diagnosis e)) failure_action v,
            Publish (stamp cfg (ctime e) r
              [''status'' \<mapsto> JStr ''Intervention Needed'', ''cpu_usage'' \<mapsto> JFloat v])])"

definition body_events :: "config \<Rightarrow> cycle_env \<Rightarrow> agent_state \<Rightarrow> event list" where
  "body_events cfg e st =
     (case get_cpu_usage cfg (metrics e) of
        Inl x \<Rightarrow>
          (case error_print (metrics e) of
             Some x' \<Rightarrow> []
           | None \<Rightarrow> [Publish (stamp cfg (ctime e) (running st)
                      [''cpu_usage'' \<mapsto> JInt 0, ''status'' \<mapsto> JStr ''Monitoring Error''])])
      | Inr v \<Rightarrow>
          if v > real_of_int (THRESHOLD cfg) then
            Publish (stamp cfg (ctime e) (running st)
               [''cpu_usage'' \<mapsto> JFloat v, ''status'' \<mapsto> JStr ''Spike Detected'']) #
            (if now e - last_spike_time st > 120
             then handling_events cfg e v (running st) @ [SetLastSpikeTime (now e)]
             else [Publish (stamp cfg (ctime e) (running st)
                     [''cpu_usage'' \<mapsto> JFloat v, ''status'' \<mapsto> JStr ''Cooldown''])])
          else [Publish (stamp cfg (ctime e) (running st)
                  [''cpu_usage'' \<mapsto> JFloat v, ''status'' \<mapsto> JStr ''Normal''])])"

definition handles :: "config \<Rightarrow> cycle_env \<Rightarrow> agent_state \<Rightarrow> bool" where
  "handles cfg e st =
     (case get_cpu_usage cfg (metrics e) of
        Inl x \<Rightarrow> False
      | Inr v \<Rightarrow> v > real_of_int (THRESHOLD cfg) \<and> now e - last_spike_time st > 120)"

text \<open>
  For each status record of a state, in order: its status and whether it has the key
  \<open>cpu_usage\<close>.
\<close>

definition status_keys :: "ui_data \<Rightarrow> string \<times> bool" where
  "status_keys d = (status_of d, d ''cpu_usage'' \<noteq> None)"

definition status_table :: "agent_state \<Rightarrow> (string \<times> bool) list" where
  "status_table st = map status_keys (published (trace st))"


text \<open>A status record whose \<open>cpu_usage\<close>, when it has one, lies between 0 and 100.\<close>

definition cpu_in_range :: "ui_data \<Rightarrow> bool" where
  "cpu_in_range d = (case cpu_value d of None \<Rightarrow> True | Some v \<Rightarrow> 0 \<le> v \<and> v \<le> 100)"

subsection \<open>Concrete environments\<close>

text \<open>An environment that sets the four keys named by the specification.\<close>

definition spec_environ :: "string \<rightharpoonup> string" where
  "spec_environ =
     [''THRESHOLD_PERCENT'' \<mapsto> ''50'', ''SUBJECT_NAME'' \<mapsto> ''web'',
      ''SAMPLING_INTERVAL_SECONDS'' \<mapsto> ''10'', ''COOLDOWN_SECONDS'' \<mapsto> ''10'']"


definition demo_config :: config where
  "demo_config =
     \<lparr>API_KEY = None, SLACK_WEBHOOK_URL = None, THRESHOLD = 80,
      CONTAINER_NAME = ''test-container'', prom = True\<rparr>"

text \<open>Prometheus answers every query with the one value \<open>v\<close>.\<close>

definition metrics_of :: "real \<Rightarrow> metric_env" where
  "metrics_of v =
     \<lparr>custom_query = (\<lambda>q. PromResult [Parsed (Fin v)]), clock = 0,
      draw_raw = 1 / 2, draw_noise = 1 / 2, draw_chance = 1 / 2, draw_spike = 1 / 2,
      sim_exception = None, error_print = None\<rparr>"

text \<open>The first query answers 150, every other query 50.\<close>

definition metrics_mixed :: metric_env where
  "metrics_mixed =
     (metrics_of 50)\<lparr>custom_query :=
        (\<lambda>q. if q = IdleRateByInstance5m then PromResult [Parsed (Fin 150)]
              else PromResult [Parsed (Fin 50)])\<rparr>"

text \<open>
  No Prometheus answer is usable and the simulation block raises once: the console
  of the process does not take the write, and takes the next one.
\<close>

definition metrics_broken :: metric_env where
  "metrics_broken =
     (metrics_of 0)\<lparr>custom_query := (\<lambda>q. PromRaises),
        sim_exception := Some ''write could not complete without blocking''\<rparr>"

text \<open>The console of the process is closed: every \<open>print\<close> of the sampling raises.\<close>

definition metrics_closed :: metric_env where
  "metrics_closed =
     (metrics_of 0)\<lparr>custom_query := (\<lambda>q. PromRaises),
        sim_exception := Some ''I/O operation on closed file'',
        error_print := Some ''I/O operation on closed file''\<rparr>"

text \<open>The configuration of a process that found no Prometheus.\<close>

definition offline_config :: config where
  "offline_config =
     \<lparr>API_KEY = None, SLACK_WEBHOOK_URL = None, THRESHOLD = 80,
      CONTAINER_NAME = ''test-container'', prom = False\<rparr>"

definition diag_ok :: diag_env where
  "diag_ok =
     \<lparr>fs_exception = None, log_file = Some ''Memory pressure increasing'',
      openai = Inl ''not called''\<rparr>"

definition diag_broken :: diag_env where
  "diag_broken =
     \<lparr>fs_exception = Some ''disk full'', log_file = None, openai = Inl ''not called''\<rparr>"

definition docker_ok :: docker_env where
  "docker_ok =
     \<lparr>docker_ps = Completed 0 ''test-container'', docker_run = ProcRaises ''not called'',
      docker_restart = Completed 0 ''test-container''\<rparr>"

definition docker_down :: docker_env where
  "docker_down =
     \<lparr>docker_ps = ProcRaises ''docker: command not found'',
      docker_run = ProcRaises ''not called'', docker_restart = ProcRaises ''not called''\<rparr>"

definition demo_cycle :: "metric_env \<Rightarrow> real \<Rightarrow> diag_env \<Rightarrow> docker_env \<Rightarrow> cycle_env" where
  "demo_cycle m t d k =
     \<lparr>metrics = m, now = t, ctime = ''Tue Nov  3 12:00:00 2026'', diagnosis = d,
      docker = k, sleep_exception = None, signal = NoSignal\<rparr>"

text \<open>A quiet cycle during whose sleep the shutdown signal arrives.\<close>

definition demo_last_cycle :: cycle_env where
  "demo_last_cycle = (demo_cycle (metrics_of 50) 1000 diag_ok docker_ok)\<lparr>signal := SignalWhileSleeping\<rparr>"

text \<open>A quiet cycle whose sleep raises.\<close>

definition demo_error_cycle :: cycle_env where
  "demo_error_cycle =
     (demo_cycle (metrics_of 50) 970 diag_ok docker_ok)\<lparr>sleep_exception := Some ''sleep failed''\<rparr>"

definition demo_state :: agent_state where
  "demo_state = \<lparr>running = True, cycle_count = 0, last_spike_time = 0, trace = []\<rparr>"

definition demo_startup :: startup_env where
  "demo_startup =
     \<lparr>signal_before_start = False, start_ctime = ''Tue Nov  3 11:59:30 2026'',
      makedirs_exception = None, stop_ctime = ''Tue Nov  3 12:00:30 2026''\<rparr>"

text \<open>A start at which the directories cannot be created.\<close>

definition failing_startup :: startup_env where
  "failing_startup = demo_startup\<lparr>makedirs_exception := Some ''Permission denied''\<rparr>"

section \<open>Properties\<close>

subsection \<open>Traces and status records\<close>

lemma stamp_status [simp]: "stamp cfg ct r d ''status'' = d ''status''"
  and stamp_cpu [simp]: "stamp cfg ct r d ''cpu_usage'' = d ''cpu_usage''"
  and stamp_error [simp]: "stamp cfg ct r d ''error'' = d ''error''"
  and stamp_last_updated [simp]: "stamp cfg ct r d ''last_updated'' = Some (JStr ct)"
  and stamp_container [simp]: "stamp cfg ct r d ''container_name'' = Some (JStr (CONTAINER_NAME cfg))"
  and stamp_threshold [simp]: "stamp cfg ct r d ''threshold'' = Some (JInt (THRESHOLD cfg))"
  and stamp_active [simp]: "stamp cfg ct r d ''monitoring_active'' = Some (JBool r)"
  by (simp_all add: stamp_def map_add_def)

lemma status_of_stamp [simp]: "status_of (stamp cfg ct r d) = status_of d"
  by (simp add: status_of_def)

lemma update_ui_data_fields [simp]:
  "running (update_ui_data cfg ct d st) = running st"
  "cycle_count (update_ui_data cfg ct d st) = cycle_count st"
  "last_spike_time (update_ui_data cfg ct d st) = last_spike_time st"
  "trace (update_ui_data cfg ct d st) = trace st @ [Publish (stamp cfg ct (running st) d)]"
  by (simp_all add: update_ui_data_def)

lemma new_events_append [simp]: "trace st' = trace st @ evs \<Longrightarrow> new_events st st' = evs"
  by (simp add: new_events_def)

lemma calls_append [simp]: "calls (xs @ ys) = calls xs @ calls ys"
  by (induction xs rule: calls.induct) simp_all

lemma published_append [simp]: "published (xs @ ys) = published xs @ published ys"
  by (induction xs rule: published.induct) simp_all

lemma handling_times_append [simp]:
  "handling_times (xs @ ys) = handling_times xs @ handling_times ys"
  by (induction xs rule: handling_times.induct) simp_all

lemma statuses_append [simp]: "statuses (xs @ ys) = statuses xs @ statuses ys"
  by (simp add: statuses_def)

lemma statuses_simps [simp]:
  "statuses [] = []"
  "statuses (Publish d # evs) = status_of d # statuses evs"
  "statuses (Diagnose # evs) = statuses evs"
  "statuses (Remediate # evs) = statuses evs"
  "statuses (Notify c a # evs) = statuses evs"
  "statuses (RecordIncident c a v # evs) = statuses evs"
  "statuses (SetLastSpikeTime t # evs) = statuses evs"
  by (simp_all add: statuses_def)

lemma status_of_literal [simp]:
  "status_of (m(''status'' \<mapsto> JStr s)) = s"
  "status_of (m(''status'' \<mapsto> JStr s, ''cpu_usage'' \<mapsto> x)) = s"
  "status_of (m(''status'' \<mapsto> JStr s, ''error'' \<mapsto> x)) = s"
  "status_of (m(''status'' \<mapsto> JStr s, ''monitoring_active'' \<mapsto> x)) = s"
  by (simp_all add: status_of_def)

subsection \<open>What each function appends\<close>

lemma remediate_result:
  "remediate cfg d ct st =
     (restart_container cfg d,
      if restart_container cfg d
      then st\<lparr>trace := trace st @
             [Publish (stamp cfg ct (running st)
                [''status'' \<mapsto> JStr ''Remediation Complete'', ''cpu_usage'' \<mapsto> JFloat 25])]\<rparr>
      else st)"
  by (simp add: remediate_def update_ui_data_def)

lemma handle_cpu_spike_result:
  "handle_cpu_spike cfg e v st =
     (restart_container cfg (docker e),
      st\<lparr>trace := trace st @ handling_events cfg e v (running st)\<rparr>)"
  by (simp add: handle_cpu_spike_def remediate_result update_ui_data_def notify_def
      log_incident_def handling_events_def Let_def)

lemma monitor_cpu_once_result:
  "monitor_cpu_once cfg m ct st =
     (case get_cpu_usage cfg m of
        Inr v \<Rightarrow> Inr ((v > real_of_int (THRESHOLD cfg), v),
                   st\<lparr>trace := trace st @ [Publish (stamp cfg ct (running st)
                      [''cpu_usage'' \<mapsto> JFloat v,
                       ''status'' \<mapsto> JStr (if v > real_of_int (THRESHOLD cfg) then ''Spike Detected'' else ''Normal'')])]\<rparr>)
      | Inl x \<Rightarrow>
          (case error_print m of
             Some x' \<Rightarrow> Inl x'
           | None \<Rightarrow> Inr ((False, 0),
                   st\<lparr>trace := trace st @ [Publish (stamp cfg ct (running st)
                      [''cpu_usage'' \<mapsto> JInt 0, ''status'' \<mapsto> JStr ''Monitoring Error''])]\<rparr>)))"
  by (simp add: monitor_cpu_once_def update_ui_data_def split: sum.splits option.splits)

lemma body_exception_result:
  "body_exception cfg e st =
     (case get_cpu_usage cfg (metrics e) of
        Inl x \<Rightarrow> error_print (metrics e)
      | Inr v \<Rightarrow> None)"
  by (simp add: body_exception_def monitor_cpu_once_result split: sum.splits option.splits)

lemma cycle_body_result:
  "cycle_body cfg e st =
     st\<lparr>cycle_count := cycle_count st + 1,
        last_spike_time := (if handles cfg e st then now e else last_spike_time st),
        trace := trace st @ body_events cfg e st\<rparr>"
  by (simp add: cycle_body_def monitor_cpu_once_result handle_cpu_spike_result
      update_ui_data_def body_events_def handles_def Let_def
      split: sum.splits option.splits)

lemma cycle_body_fields [simp]:
  "running (cycle_body cfg e st) = running st"
  "trace (cycle_body cfg e st) = trace st @ body_events cfg e st"
  "last_spike_time (cycle_body cfg e st) = (if handles cfg e st then now e else last_spike_time st)"
  by (simp_all add: cycle_body_result)

subsection \<open>The concrete environments, evaluated\<close>

lemma success_action_contains: "sublist ''restarted successfully'' (success_action cfg)"
  unfolding success_action_def sublist_def
  by (rule exI[of _ "''Container '' @ [CHR 0x27] @ CONTAINER_NAME cfg @ [CHR 0x27] @ '' ''"],
      rule exI[of _ "[]"]) simp

lemma failure_action_contains: "sublist ''manual intervention required'' failure_action"
  unfolding failure_action_def sublist_def
  by (rule exI[of _ "''Automatic remediation failed - ''"], rule exI[of _ "[]"]) simp

lemma demo_sample [simp]:
  "0 \<le> v \<Longrightarrow> v \<le> 100 \<Longrightarrow> get_cpu_usage demo_config (metrics_of v) = Inr v"
  by (simp add: get_cpu_usage_def demo_config_def metrics_of_def queries_def)

lemma demo_cycle_fields [simp]:
  "metrics (demo_cycle m t d k) = m"
  "now (demo_cycle m t d k) = t"
  "ctime (demo_cycle m t d k) = ''Tue Nov  3 12:00:00 2026''"
  "diagnosis (demo_cycle m t d k) = d"
  "docker (demo_cycle m t d k) = k"
  "sleep_exception (demo_cycle m t d k) = None"
  "signal (demo_cycle m t d k) = NoSignal"
  by (simp_all add: demo_cycle_def)

lemma demo_state_fields [simp]:
  "running demo_state" "cycle_count demo_state = 0" "last_spike_time demo_state = 0"
  "trace demo_state = []"
  by (simp_all add: demo_state_def)

lemma demo_config_fields [simp]:
  "THRESHOLD demo_config = 80" "CONTAINER_NAME demo_config = ''test-container''"
  "API_KEY demo_config = None" "prom demo_config"
  by (simp_all add: demo_config_def)

lemma lower_demo: "lower ''Memory pressure increasing'' = ''memory pressure increasing''"
  by code_simp

lemma demo_analysis [simp]:
  "analyze_logs demo_config ct diag_ok = ''Memory pressure leading to excessive swapping''"
  by (simp add: analyze_logs_def analyze_logs_body_def diag_ok_def truthy_def
      simulated_analysis_def lower_demo sublist_code prefix_code)

lemma demo_analysis_broken [simp]:
  "analyze_logs demo_config ct diag_broken = ''Log analysis failed: disk full''"
  by (simp add: analyze_logs_def analyze_logs_body_def diag_broken_def)

lemma demo_restart [simp]:
  "restart_container demo_config docker_ok" "\<not> restart_container demo_config docker_down"
  by (simp_all add: restart_container_def docker_ok_def docker_down_def)

subsection \<open>Order of the trigger time and the diagnosis\<close>

text \<open>
  C1, as the code has it: in a cycle that handles a spike, the loop reads the current
  time, runs the whole handling sequence (diagnosis, remediation, notification,
  incident record) with \<open>last_spike_time\<close> unchanged, and assigns the time it read to
  \<open>last_spike_time\<close> only after \<open>handle_cpu_spike\<close> has returned.
\<close>

theorem trigger_time_set_after_handling:
  assumes "get_cpu_usage cfg (metrics e) = Inr v" and "real_of_int (THRESHOLD cfg) < v"
    and "now e - last_spike_time st > 120"
  shows "calls (new_events st (cycle_body cfg e st)) =
           [Diagnose, Remediate,
            Notify (analyze_logs cfg (ctime e) (diagnosis e))
              (if restart_container cfg (docker e) then success_action cfg else failure_action),
            RecordIncident (analyze_logs cfg (ctime e) (diagnosis e))
              (if restart_container cfg (docker e) then success_action cfg else failure_action) v,
            SetLastSpikeTime (now e)]
         \<and> last_spike_time (snd (handle_cpu_spike cfg e v st)) = last_spike_time st
         \<and> last_spike_time (cycle_body cfg e st) = now e"
  using assms
  by (simp add: body_events_def handles_def handling_events_def handle_cpu_spike_result)

text \<open>
  The theorem at a spike of 95 at time 1000 with a failing diagnosis and no container
  runtime.
\<close>

theorem trigger_time_set_after_handling_witness:
  "get_cpu_usage demo_config (metrics (demo_cycle (metrics_of 95) 1000 diag_broken docker_down)) = Inr 95
   \<and> real_of_int (THRESHOLD demo_config) < 95
   \<and> now (demo_cycle (metrics_of 95) 1000 diag_broken docker_down) - last_spike_time demo_state > 120
   \<and> calls (new_events demo_state
            (cycle_body demo_config (demo_cycle (metrics_of 95) 1000 diag_broken docker_down) demo_state)) =
     [Diagnose, Remediate,
      Notify ''Log analysis failed: disk full'' failure_action,
      RecordIncident ''Log analysis failed: disk full'' failure_action 95,
      SetLastSpikeTime 1000]
   \<and> last_spike_time (cycle_body demo_config (demo_cycle (metrics_of 95) 1000 diag_broken docker_down) demo_state) = 1000"
  using trigger_time_set_after_handling
    [of demo_config "demo_cycle (metrics_of 95) 1000 diag_broken docker_down" 95 demo_state]
  by simp

text \<open>
  The claim as the specification words it (the trigger time is recorded before the
  diagnosis begins) fails: at a spike of 95 at time 1000 the diagnosis and the
  remediation come first in the trace, the assignment last, and \<open>last_spike_time\<close> is
  still 0 when \<open>handle_cpu_spike\<close> returns.
\<close>

theorem trigger_time_before_diagnosis_counterexample:
  "calls (new_events demo_state
            (cycle_body demo_config (demo_cycle (metrics_of 95) 1000 diag_ok docker_ok) demo_state)) =
     [Diagnose, Remediate,
      Notify ''Memory pressure leading to excessive swapping'' (success_action demo_config),
      RecordIncident ''Memory pressure leading to excessive swapping'' (success_action demo_config) 95,
      SetLastSpikeTime 1000]
   \<and> last_spike_time (snd (handle_cpu_spike demo_config
         (demo_cycle (metrics_of 95) 1000 diag_ok docker_ok) 95 demo_state)) = 0"
  by (simp add: body_events_def handles_def handling_events_def handle_cpu_spike_result)

subsection \<open>The loop and the shutdown flag\<close>

lemma monitoring_cycle_running:
  "running (monitoring_cycle cfg e st) = (running st \<and> signal e = NoSignal)"
  by (cases "signal e")
     (auto simp add: monitoring_cycle_def sleep_until_next_check_def Let_def
        split: option.splits)

lemma monitoring_loop_step:
  "running st \<Longrightarrow>
   monitoring_loop cfg (e # es) st = monitoring_loop cfg es (monitoring_cycle cfg e st)"
  by simp

lemma demo_sample_broken [simp]:
  "get_cpu_usage demo_config metrics_broken = Inl ''write could not complete without blocking''"
  "error_print metrics_broken = None"
  by (simp_all add: get_cpu_usage_def metrics_broken_def metrics_of_def queries_def simulation_def)

lemma demo_sample_closed [simp]:
  "get_cpu_usage offline_config metrics_closed = Inl ''I/O operation on closed file''"
  "error_print metrics_closed = Some ''I/O operation on closed file''"
  by (simp_all add: get_cpu_usage_def metrics_closed_def metrics_of_def offline_config_def
        simulation_def)

lemma calls_body_events_running [simp]:
  "calls (body_events cfg e (st\<lparr>running := r\<rparr>)) = calls (body_events cfg e st)"
  by (simp add: body_events_def handling_events_def split: sum.splits option.splits)

lemma monitoring_cycle_calls:
  "calls (new_events st (monitoring_cycle cfg e st)) = calls (body_events cfg e st)"
  by (simp add: monitoring_cycle_def sleep_until_next_check_def Let_def new_events_def
        split: option.splits)

subsection \<open>Successful remediation\<close>

text \<open>
  C3, as the code has it: when the restart succeeds, \<open>remediate\<close> itself publishes the
  status \<open>Remediation Complete\<close> (with the value 25.0), and after it \<open>handle_cpu_spike\<close>
  sends the notification and appends the incident record, both with an action text
  that contains \<open>restarted successfully\<close>. These are the last events of the handling
  sequence: no status \<open>Normal\<close> is published by it.
\<close>

theorem successful_remediation_reports:
  assumes "restart_container cfg (docker e)"
  shows "fst (handle_cpu_spike cfg e v st)
     \<and> new_events st (snd (handle_cpu_spike cfg e v st)) =
         [Publish (stamp cfg (ctime e) (running st)
            [''cpu_usage'' \<mapsto> JFloat v, ''status'' \<mapsto> JStr ''Analyzing...'']),
          Diagnose,
          Publish (stamp cfg (ctime e) (running st)
            [''cpu_usage'' \<mapsto> JFloat v, ''status'' \<mapsto> JStr ''Remediating...'']),
          Remediate,
          Publish (stamp cfg (ctime e) (running st)
            [''status'' \<mapsto> JStr ''Remediation Complete'', ''cpu_usage'' \<mapsto> JFloat 25]),
          Notify (analyze_logs cfg (ctime e) (diagnosis e)) (success_action cfg),
          RecordIncident (analyze_logs cfg (ctime e) (diagnosis e)) (success_action cfg) v]
     \<and> sublist ''restarted successfully'' (success_action cfg)
     \<and> statuses (new_events st (snd (handle_cpu_spike cfg e v st))) =
         [''Analyzing...'', ''Remediating...'', ''Remediation Complete'']"
  using assms
  by (simp add: handle_cpu_spike_result handling_events_def success_action_contains)

text \<open>The theorem at a spike of 95 with a working container runtime.\<close>

theorem successful_remediation_reports_witness:
  "restart_container demo_config (docker (demo_cycle (metrics_of 95) 1000 diag_ok docker_ok))
   \<and> fst (handle_cpu_spike demo_config (demo_cycle (metrics_of 95) 1000 diag_ok docker_ok) 95 demo_state)
   \<and> sublist ''restarted successfully'' (success_action demo_config)
   \<and> statuses (new_events demo_state
        (snd (handle_cpu_spike demo_config (demo_cycle (metrics_of 95) 1000 diag_ok docker_ok) 95 demo_state))) =
         [''Analyzing...'', ''Remediating...'', ''Remediation Complete'']"
  using successful_remediation_reports[of demo_config "demo_cycle (metrics_of 95) 1000 diag_ok docker_ok" 95 demo_state]
  by simp

text \<open>
  The claim as the specification words it (after the notification and the incident
  record a status with phase Normal is published) fails: in the cycle of a spike of 95
  that is remediated, the statuses published are \<open>Spike Detected\<close>, \<open>Analyzing...\<close>,
  \<open>Remediating...\<close> and \<open>Remediation Complete\<close>, and the last event of the handling
  sequence is the incident record.
\<close>

theorem successful_remediation_normal_counterexample:
  "statuses (new_events demo_state
      (cycle_body demo_config (demo_cycle (metrics_of 95) 1000 diag_ok docker_ok) demo_state)) =
     [''Spike Detected'', ''Analyzing...'', ''Remediating...'', ''Remediation Complete'']
   \<and> last (trace (snd (handle_cpu_spike demo_config
         (demo_cycle (metrics_of 95) 1000 diag_ok docker_ok) 95 demo_state))) =
       RecordIncident ''Memory pressure leading to excessive swapping'' (success_action demo_config) 95"
  by (simp add: body_events_def handles_def handling_events_def handle_cpu_spike_result)

subsection \<open>Failed remediation\<close>

text \<open>
  C4: when the remediation fails in a cycle that handles a spike, the controller still
  sends the notification, appends exactly one incident record, both with the action
  text \<open>Automatic remediation failed - manual intervention required\<close>, and publishes
  the status \<open>Intervention Needed\<close> last; unless a shutdown signal arrives, \<open>running\<close>
  stays true and the loop goes on with the next cycle.
\<close>

theorem failed_remediation_needs_intervention:
  assumes "running st" and "signal e = NoSignal"
    and "get_cpu_usage cfg (metrics e) = Inr v" and "real_of_int (THRESHOLD cfg) < v"
    and "now e - last_spike_time st > 120"
    and "\<not> restart_container cfg (docker e)"
  shows "calls (new_events st (cycle_body cfg e st)) =
           [Diagnose, Remediate,
            Notify (analyze_logs cfg (ctime e) (diagnosis e)) failure_action,
            RecordIncident (analyze_logs cfg (ctime e) (diagnosis e)) failure_action v,
            SetLastSpikeTime (now e)]
     \<and> sublist ''manual intervention required'' failure_action
     \<and> statuses (new_events st (cycle_body cfg e st)) =
           [''Spike Detected'', ''Analyzing...'', ''Remediating...'', ''Intervention Needed'']
     \<and> running (monitoring_cycle cfg e st)
     \<and> monitoring_loop cfg (e # es) st = monitoring_loop cfg es (monitoring_cycle cfg e st)"
  using assms
  by (simp add: body_events_def handles_def handling_events_def failure_action_contains
      monitoring_cycle_running)

text \<open>
  The theorem at a spike of 95 with no container runtime; the loop is still running
  when the answers of the outside world are used up.
\<close>

theorem failed_remediation_needs_intervention_witness:
  "running demo_state
   \<and> signal (demo_cycle (metrics_of 95) 1000 diag_ok docker_down) = NoSignal
   \<and> get_cpu_usage demo_config (metrics (demo_cycle (metrics_of 95) 1000 diag_ok docker_down)) = Inr 95
   \<and> real_of_int (THRESHOLD demo_config) < 95
   \<and> now (demo_cycle (metrics_of 95) 1000 diag_ok docker_down) - last_spike_time demo_state > 120
   \<and> \<not> restart_container demo_config (docker (demo_cycle (metrics_of 95) 1000 diag_ok docker_down))
   \<and> calls (new_events demo_state
         (cycle_body demo_config (demo_cycle (metrics_of 95) 1000 diag_ok docker_down) demo_state)) =
       [Diagnose, Remediate,
        Notify ''Memory pressure leading to excessive swapping'' failure_action,
        RecordIncident ''Memory pressure leading to excessive swapping'' failure_action 95,
        SetLastSpikeTime 1000]
   \<and> statuses (new_events demo_state
         (cycle_body demo_config (demo_cycle (metrics_of 95) 1000 diag_ok docker_down) demo_state)) =
       [''Spike Detected'', ''Analyzing...'', ''Remediating...'', ''Intervention Needed'']
   \<and> running (monitoring_cycle demo_config (demo_cycle (metrics_of 95) 1000 diag_ok docker_down) demo_state)
   \<and> monitoring_loop demo_config [demo_cycle (metrics_of 95) 1000 diag_ok docker_down] demo_state = None"
  using failed_remediation_needs_intervention[of demo_state "demo_cycle (metrics_of 95) 1000 diag_ok docker_down" demo_config 95 "[]"]
  by simp

subsection \<open>Failed diagnosis\<close>

text \<open>
  C5, as the code has it: when the body of \<open>analyze_logs\<close> raises, the cause is the
  text \<open>Log analysis failed: \<close> followed by the message of the exception, and the
  handling sequence goes on with the remediation, the notification and the incident
  record, which carry that cause.
\<close>

theorem diagnosis_failure_cause:
  assumes "analyze_logs_body cfg (ctime e) (diagnosis e) = Inl msg"
  shows "analyze_logs cfg (ctime e) (diagnosis e) = ''Log analysis failed: '' @ msg
     \<and> calls (new_events st (snd (handle_cpu_spike cfg e v st))) =
         [Diagnose, Remediate,
          Notify (''Log analysis failed: '' @ msg)
            (if restart_container cfg (docker e) then success_action cfg else failure_action),
          RecordIncident (''Log analysis failed: '' @ msg)
            (if restart_container cfg (docker e) then success_action cfg else failure_action) v]"
  using assms
  by (simp add: analyze_logs_def handle_cpu_spike_result handling_events_def)

text \<open>The theorem at a log directory that cannot be written.\<close>

theorem diagnosis_failure_cause_witness:
  "analyze_logs_body demo_config (ctime (demo_cycle (metrics_of 95) 1000 diag_broken docker_ok))
      (diagnosis (demo_cycle (metrics_of 95) 1000 diag_broken docker_ok)) = Inl ''disk full''
   \<and> calls (new_events demo_state
        (snd (handle_cpu_spike demo_config (demo_cycle (metrics_of 95) 1000 diag_broken docker_ok) 95 demo_state))) =
         [Diagnose, Remediate,
          Notify ''Log analysis failed: disk full'' (success_action demo_config),
          RecordIncident ''Log analysis failed: disk full'' (success_action demo_config) 95]"
proof -
  have h: "analyze_logs_body demo_config (ctime (demo_cycle (metrics_of 95) 1000 diag_broken docker_ok))
      (diagnosis (demo_cycle (metrics_of 95) 1000 diag_broken docker_ok)) = Inl ''disk full''"
    by (simp add: analyze_logs_body_def diag_broken_def)
  show ?thesis
    using h diagnosis_failure_cause[OF h, of demo_state 95] by simp
qed

text \<open>
  The claim as the specification words it (the cause is the string
  \<open>diagnosis unavailable\<close>) fails: with the file operations raising \<open>disk full\<close> the
  cause is \<open>Log analysis failed: disk full\<close>.
\<close>

theorem diagnosis_fallback_string_counterexample:
  "analyze_logs_body demo_config ''Tue Nov  3 12:00:00 2026'' diag_broken = Inl ''disk full''
   \<and> analyze_logs demo_config ''Tue Nov  3 12:00:00 2026'' diag_broken = ''Log analysis failed: disk full''
   \<and> analyze_logs demo_config ''Tue Nov  3 12:00:00 2026'' diag_broken \<noteq> ''diagnosis unavailable''"
  by (simp add: analyze_logs_def analyze_logs_body_def diag_broken_def)

subsection \<open>An exception while sampling\<close>

text \<open>
  C10, as the code has it: when \<open>get_cpu_usage\<close> raises, \<open>monitor_cpu_once\<close> catches
  the exception and prints it. When that \<open>print\<close> succeeds, the function publishes the
  status \<open>Monitoring Error\<close> with the value 0 and returns \<open>(False, 0)\<close>, and no exception
  leaves the body of the cycle. When that \<open>print\<close> raises, its exception leaves
  \<open>monitor_cpu_once\<close> and the body of the cycle with nothing published, and reaches the
  \<open>except\<close> clause of the loop. In both cases the cycle makes no call to the diagnosis,
  the remediation, the notification or the incident log, and leaves \<open>last_spike_time\<close>
  as it was.
\<close>

theorem sampling_exception_handling:
  assumes "get_cpu_usage cfg (metrics e) = Inl msg"
  shows "(error_print (metrics e) = None \<longrightarrow>
            monitor_cpu_once cfg (metrics e) (ctime e) st =
              Inr ((False, 0),
                   update_ui_data cfg (ctime e)
                     [''cpu_usage'' \<mapsto> JInt 0, ''status'' \<mapsto> JStr ''Monitoring Error''] st)
            \<and> body_exception cfg e st = None
            \<and> statuses (new_events st (cycle_body cfg e st)) = [''Monitoring Error''])
     \<and> (error_print (metrics e) = Some msg' \<longrightarrow>
            monitor_cpu_once cfg (metrics e) (ctime e) st = Inl msg'
            \<and> body_exception cfg e st = Some msg'
            \<and> new_events st (cycle_body cfg e st) = [])
     \<and> calls (new_events st (cycle_body cfg e st)) = []
     \<and> last_spike_time (cycle_body cfg e st) = last_spike_time st
     \<and> calls (new_events st (monitoring_cycle cfg e st)) = []"
  using assms
  by (simp add: monitor_cpu_once_def body_exception_result body_events_def handles_def
        monitoring_cycle_calls split: option.splits)

text \<open>
  The theorem at a sampling whose simulation block raises once while the console takes
  the next write, and at a sampling with a closed console.
\<close>

theorem sampling_exception_handling_witness:
  "get_cpu_usage demo_config (metrics (demo_cycle metrics_broken 1000 diag_ok docker_ok))
     = Inl ''write could not complete without blocking''
   \<and> error_print (metrics (demo_cycle metrics_broken 1000 diag_ok docker_ok)) = None
   \<and> map_sum id fst (monitor_cpu_once demo_config (metrics (demo_cycle metrics_broken 1000 diag_ok docker_ok))
        (ctime (demo_cycle metrics_broken 1000 diag_ok docker_ok)) demo_state) = Inr (False, 0)
   \<and> statuses (new_events demo_state
        (cycle_body demo_config (demo_cycle metrics_broken 1000 diag_ok docker_ok) demo_state)) =
       [''Monitoring Error'']
   \<and> calls (new_events demo_state
        (monitoring_cycle demo_config (demo_cycle metrics_broken 1000 diag_ok docker_ok) demo_state)) = []
   \<and> get_cpu_usage offline_config (metrics (demo_cycle metrics_closed 1000 diag_ok docker_ok))
     = Inl ''I/O operation on closed file''
   \<and> error_print (metrics (demo_cycle metrics_closed 1000 diag_ok docker_ok))
     = Some ''I/O operation on closed file''
   \<and> body_exception offline_config (demo_cycle metrics_closed 1000 diag_ok docker_ok) demo_state
     = Some ''I/O operation on closed file''
   \<and> new_events demo_state
        (cycle_body offline_config (demo_cycle metrics_closed 1000 diag_ok docker_ok) demo_state) = []"
  using sampling_exception_handling
          [of demo_config "demo_cycle metrics_broken 1000 diag_ok docker_ok"
              "''write could not complete without blocking''" demo_state]
        sampling_exception_handling
          [of offline_config "demo_cycle metrics_closed 1000 diag_ok docker_ok"
              "''I/O operation on closed file''" demo_state "''I/O operation on closed file''"]
  by simp

text \<open>
  The claim as the specification words it (a sampling exception is caught, the status
  \<open>Monitoring Error\<close> is published, \<open>(False, 0)\<close> is returned, and no exception reaches
  the loop) fails: with a closed console the sampling raises and so does the \<open>print\<close> of
  the \<open>except\<close> branch, \<open>monitor_cpu_once\<close> raises instead of returning, publishes
  nothing, and the exception leaves the body of the cycle.
\<close>

theorem sampling_exception_propagates_counterexample:
  "get_cpu_usage offline_config metrics_closed = Inl ''I/O operation on closed file''
   \<and> monitor_cpu_once offline_config metrics_closed ''Tue Nov  3 12:00:00 2026'' demo_state
       = Inl ''I/O operation on closed file''
   \<and> body_exception offline_config (demo_cycle metrics_closed 1000 diag_ok docker_ok) demo_state
       = Some ''I/O operation on closed file''
   \<and> trace (cycle_body offline_config (demo_cycle metrics_closed 1000 diag_ok docker_ok) demo_state)
       = []"
  by (simp add: monitor_cpu_once_result body_exception_result body_events_def)

subsection \<open>The cooldown\<close>

lemma handles_running [simp]: "handles cfg e (st\<lparr>running := r\<rparr>) = handles cfg e st"
  by (simp add: handles_def split: sum.splits)

lemma handling_times_handling_events [simp]: "handling_times (handling_events cfg e v r) = []"
  by (simp add: handling_events_def)









subsection \<open>Shutdown\<close>


lemma last_status_update [simp]:
  "last_status (update_ui_data cfg ct d st) = Some (stamp cfg ct (running st) d)"
  by (simp add: last_status_def)


lemma demo_last_cycle_result:
  "running st \<Longrightarrow>
   monitoring_cycle demo_config demo_last_cycle st =
     st\<lparr>running := False, cycle_count := cycle_count st + 1,
        trace := trace st @ [Publish (stamp demo_config ''Tue Nov  3 12:00:00 2026'' True
                   [''cpu_usage'' \<mapsto> JFloat 50, ''status'' \<mapsto> JStr ''Normal''])]\<rparr>"
  by (simp add: demo_last_cycle_def monitoring_cycle_def sleep_until_next_check_def
      cycle_body_result handles_def body_events_def body_exception_result)

lemma demo_main:
  "main demo_config demo_startup [demo_last_cycle] =
     Some \<lparr>running = False, cycle_count = 1, last_spike_time = 0,
           trace =
             [Publish (stamp demo_config ''Tue Nov  3 11:59:30 2026'' True
                [''cpu_usage'' \<mapsto> JFloat 0, ''status'' \<mapsto> JStr ''Initializing...'']),
              Publish (stamp demo_config ''Tue Nov  3 12:00:00 2026'' True
                [''cpu_usage'' \<mapsto> JFloat 50, ''status'' \<mapsto> JStr ''Normal'']),
              Publish (stamp demo_config ''Tue Nov  3 12:00:30 2026'' False
                [''status'' \<mapsto> JStr ''Stopped'', ''monitoring_active'' \<mapsto> JBool False])]\<rparr>"
  by (simp add: main_def demo_startup_def continuous_monitoring_def demo_last_cycle_result
      cleanup_def update_ui_data_def)



subsection \<open>The keys of a status record\<close>

lemma well_formed_stamp:
  "d ''status'' \<noteq> None \<Longrightarrow>
   (if status_of d \<in> set [''Agent Error'', ''Fatal Error'', ''Stopped'']
    then d ''cpu_usage'' = None else d ''cpu_usage'' \<noteq> None) \<Longrightarrow>
   well_formed_status (stamp cfg ct r d)"
  by (simp add: well_formed_status_def)

lemma well_formed_handling_events:
  "list_all well_formed_status (published (handling_events cfg e v r))"
  by (simp add: handling_events_def well_formed_stamp)

lemma well_formed_body_events:
  "list_all well_formed_status (published (body_events cfg e st))"
  by (simp add: body_events_def well_formed_stamp well_formed_handling_events
        split: sum.splits option.splits)

lemma well_formed_cycle:
  "list_all well_formed_status (published (trace st)) \<Longrightarrow>
   list_all well_formed_status (published (trace (monitoring_cycle cfg e st)))"
  by (simp add: monitoring_cycle_def sleep_until_next_check_def Let_def
      well_formed_body_events well_formed_stamp split: option.splits)

lemma well_formed_run:
  "list_all well_formed_status (published (trace st)) \<Longrightarrow>
   list_all well_formed_status (published (trace (run_cycles cfg es st)))"
  by (induction es arbitrary: st) (simp_all add: well_formed_cycle)

lemma monitoring_loop_run:
  "monitoring_loop cfg es st = Some st' \<Longrightarrow> st' = run_cycles cfg es st"
  by (induction es arbitrary: st) (auto split: if_splits)

lemma status_keys_stamp [simp]:
  "status_keys (stamp cfg ct r d) = (status_of d, d ''cpu_usage'' \<noteq> None)"
  by (simp add: status_keys_def)

lemma demo_error_cycle_result:
  "running st \<Longrightarrow>
   monitoring_cycle demo_config demo_error_cycle st =
     st\<lparr>cycle_count := cycle_count st + 1,
        trace := trace st @
          [Publish (stamp demo_config ''Tue Nov  3 12:00:00 2026'' True
             [''cpu_usage'' \<mapsto> JFloat 50, ''status'' \<mapsto> JStr ''Normal'']),
           Publish (stamp demo_config ''Tue Nov  3 12:00:00 2026'' True
             [''status'' \<mapsto> JStr ''Agent Error'', ''error'' \<mapsto> JStr ''sleep failed''])]\<rparr>"
  by (simp add: demo_error_cycle_def monitoring_cycle_def sleep_until_next_check_def
      cycle_body_result handles_def body_events_def body_exception_result update_ui_data_def)

lemma demo_main_tables:
  "map_option status_table (main demo_config demo_startup [demo_error_cycle, demo_last_cycle]) =
     Some [(''Initializing...'', True), (''Normal'', True), (''Agent Error'', False),
           (''Normal'', True), (''Stopped'', False)]"
  "map_option status_table (main demo_config failing_startup []) =
     Some [(''Initializing...'', True), (''Fatal Error'', False), (''Stopped'', False)]"
  by (simp_all add: main_def demo_startup_def failing_startup_def continuous_monitoring_def
      demo_error_cycle_result demo_last_cycle_result cleanup_def status_table_def)

text \<open>
  C9, as the code has it: every status record published by the loop and by the main
  block has the keys \<open>status\<close>, \<open>last_updated\<close>, \<open>container_name\<close>, \<open>threshold\<close> and
  \<open>monitoring_active\<close>; a record with the status \<open>Agent Error\<close>, \<open>Fatal Error\<close> or
  \<open>Stopped\<close> has no key \<open>cpu_usage\<close>, and every other record has it.
\<close>

theorem status_record_keys:
  "(list_all well_formed_status (published (trace st)) \<longrightarrow>
      list_all well_formed_status (published (trace (run_cycles cfg es st))))
   \<and> (\<forall>st'. main cfg su es = Some st' \<longrightarrow>
        list_all well_formed_status (published (trace st')))"
proof (intro conjI impI allI)
  assume "list_all well_formed_status (published (trace st))"
  then show "list_all well_formed_status (published (trace (run_cycles cfg es st)))"
    by (rule well_formed_run)
next
  fix st'
  assume m: "main cfg su es = Some st'"
  let ?st1 = "update_ui_data cfg (start_ctime su)
                 [''cpu_usage'' \<mapsto> JFloat 0, ''status'' \<mapsto> JStr ''Initializing...'']
                 \<lparr>running = \<not> signal_before_start su, cycle_count = 0,
                    last_spike_time = 0, trace = []\<rparr>"
  have init: "list_all well_formed_status (published (trace ?st1))"
    by (simp add: well_formed_stamp)
  show "list_all well_formed_status (published (trace st'))"
  proof (cases "makedirs_exception su")
    case (Some msg)
    with m show ?thesis
      by (auto simp add: main_def Let_def cleanup_def well_formed_stamp)
  next
    case None
    with m obtain st2 where loop: "monitoring_loop cfg es (?st1\<lparr>cycle_count := 0, last_spike_time := 0\<rparr>) = Some st2"
      and st': "st' = cleanup cfg su st2"
      by (auto simp add: main_def Let_def continuous_monitoring_def)
    have "st2 = run_cycles cfg es (?st1\<lparr>cycle_count := 0, last_spike_time := 0\<rparr>)"
      using loop by (rule monitoring_loop_run)
    moreover have "list_all well_formed_status
        (published (trace (run_cycles cfg es (?st1\<lparr>cycle_count := 0, last_spike_time := 0\<rparr>))))"
      by (rule well_formed_run) (simp add: well_formed_stamp)
    ultimately show ?thesis
      using st' by (simp add: cleanup_def well_formed_stamp)
  qed
qed

text \<open>The theorem at a run of one quiet cycle that ends with the signal.\<close>

theorem status_record_keys_witness:
  "list_all well_formed_status (published (trace demo_state))
   \<and> list_all well_formed_status
        (published (trace (run_cycles demo_config [demo_error_cycle, demo_last_cycle] demo_state)))
   \<and> map_option status_table (main demo_config demo_startup [demo_error_cycle, demo_last_cycle]) =
       Some [(''Initializing...'', True), (''Normal'', True), (''Agent Error'', False),
             (''Normal'', True), (''Stopped'', False)]
   \<and> map_option (\<lambda>st. list_all well_formed_status (published (trace st)))
        (main demo_config demo_startup [demo_error_cycle, demo_last_cycle]) = Some True
   \<and> map_option status_table (main demo_config failing_startup []) =
       Some [(''Initializing...'', True), (''Fatal Error'', False), (''Stopped'', False)]
   \<and> map_option (\<lambda>st. list_all well_formed_status (published (trace st)))
        (main demo_config failing_startup []) = Some True"
proof -
  obtain st1 where m1: "main demo_config demo_startup [demo_error_cycle, demo_last_cycle] = Some st1"
    using demo_main_tables(1) by (cases "main demo_config demo_startup [demo_error_cycle, demo_last_cycle]") auto
  obtain st2 where m2: "main demo_config failing_startup [] = Some st2"
    using demo_main_tables(2) by (cases "main demo_config failing_startup []") auto
  show ?thesis
    using status_record_keys
            [of demo_state demo_config "[demo_error_cycle, demo_last_cycle]" demo_startup]
          status_record_keys [of demo_state demo_config "[]" failing_startup]
          m1 m2 demo_main_tables
    by simp
qed

text \<open>
  The claim as the specification words it (every status record has the key
  \<open>cpu_usage\<close>) fails for each of the three statuses: in a run of a quiet cycle whose
  sleep raises and a quiet cycle that ends with the signal, the records \<open>Agent Error\<close>
  and \<open>Stopped\<close> have no \<open>cpu_usage\<close>; in a run whose directories cannot be created,
  the records \<open>Fatal Error\<close> and \<open>Stopped\<close> have none.
\<close>

theorem status_record_cpu_usage_counterexample:
  "map_option status_table (main demo_config demo_startup [demo_error_cycle, demo_last_cycle]) =
     Some [(''Initializing...'', True), (''Normal'', True), (''Agent Error'', False),
           (''Normal'', True), (''Stopped'', False)]
   \<and> map_option status_table (main demo_config failing_startup []) =
     Some [(''Initializing...'', True), (''Fatal Error'', False), (''Stopped'', False)]"
  by (simp add: demo_main_tables)

subsection \<open>The sanity check on sampled values\<close>

lemma accepted_value_range: "accepted_value r = Some v \<Longrightarrow> 0 \<le> v \<and> v \<le> 100"
  by (induction r rule: accepted_value.induct) (auto split: if_splits)

lemma try_queries_range:
  "try_queries m qs = Some v \<Longrightarrow>
   0 \<le> v \<and> v \<le> 100 \<and> (\<exists>q\<in>set qs. accepted_value (custom_query m q) = Some v)"
  by (induction qs) (auto split: option.splits dest: accepted_value_range)

lemma py_fmod_nonneg:
  assumes "0 < m"
  shows "0 \<le> py_fmod x m"
proof -
  have "m * of_int \<lfloor>x / m\<rfloor> \<le> m * (x / m)"
    using assms by (intro mult_left_mono) simp_all
  also have "m * (x / m) = x"
    using assms by simp
  finally show ?thesis by (simp add: py_fmod_def)
qed

lemma raw_fallback_range:
  assumes "unit_draw (draw_raw m)"
  shows "0 \<le> raw_fallback m \<and> raw_fallback m \<le> 100"
proof -
  have "0 \<le> py_fmod (clock m) 30" by (rule py_fmod_nonneg) simp
  moreover have "0 \<le> draw_raw m" using assms by (simp add: unit_draw_def)
  ultimately show ?thesis
    by (simp add: raw_fallback_def uniform_def Let_def min_def)
qed

lemma simulation_range:
  assumes "unit_draw (draw_spike m)" and "simulation m = Inr v"
  shows "0 \<le> v \<and> v \<le> 100"
  using assms
  by (auto simp add: simulation_def unit_draw_def uniform_def Let_def
        split: option.splits if_splits)

lemma get_cpu_usage_range:
  assumes "random_contract m" and "get_cpu_usage cfg m = Inr v"
  shows "0 \<le> v \<and> v \<le> 100"
proof -
  have raw: "0 \<le> raw_fallback m \<and> raw_fallback m \<le> 100"
    using assms(1) by (simp add: random_contract_def raw_fallback_range)
  have sim: "simulation m = Inr v \<Longrightarrow> 0 \<le> v \<and> v \<le> 100"
    using assms(1) simulation_range[of m v] by (simp add: random_contract_def)
  show ?thesis
    using assms(2) raw sim
    by (auto simp add: get_cpu_usage_def
          split: if_splits option.splits prom_response.splits dest: try_queries_range)
qed

lemma get_cpu_usage_synthetic:
  "try_queries m queries = None \<Longrightarrow>
   get_cpu_usage cfg m = Inr (raw_fallback m) \<or> get_cpu_usage cfg m = simulation m"
  by (simp add: get_cpu_usage_def split: prom_response.splits)

lemma cpu_value_literal [simp]:
  "cpu_value (stamp cfg ct r (m(''cpu_usage'' \<mapsto> JFloat v, ''status'' \<mapsto> s))) = Some v"
  "cpu_value (stamp cfg ct r (m(''cpu_usage'' \<mapsto> JInt i, ''status'' \<mapsto> s))) = Some (real_of_int i)"
  "cpu_value (stamp cfg ct r (m(''status'' \<mapsto> s, ''cpu_usage'' \<mapsto> JFloat v))) = Some v"
  "cpu_value (stamp cfg ct r [''status'' \<mapsto> s, ''error'' \<mapsto> x]) = None"
  "cpu_value (stamp cfg ct r [''status'' \<mapsto> s, ''monitoring_active'' \<mapsto> x]) = None"
  by (simp_all add: cpu_value_def)

lemma monitor_cpu_once_range:
  assumes "random_contract m"
  shows "(\<exists>x msg. get_cpu_usage cfg m = Inl x \<and> error_print m = Some msg
            \<and> monitor_cpu_once cfg m ct st = Inl msg)
         \<or> (\<exists>d v spike st'. monitor_cpu_once cfg m ct st = Inr ((spike, v), st')
              \<and> new_events st st' = [Publish d] \<and> cpu_value d = Some v
              \<and> 0 \<le> v \<and> v \<le> 100)"
proof (cases "get_cpu_usage cfg m")
  case (Inl x)
  then show ?thesis
    by (cases "error_print m") (auto simp add: monitor_cpu_once_result)
next
  case (Inr v)
  with assms have "0 \<le> v \<and> v \<le> 100" by (rule get_cpu_usage_range)
  with Inr show ?thesis by (simp add: monitor_cpu_once_result)
qed

lemma cpu_in_range_handling_events:
  "0 \<le> v \<Longrightarrow> v \<le> 100 \<Longrightarrow> list_all cpu_in_range (published (handling_events cfg e v r))"
  by (simp add: handling_events_def cpu_in_range_def)

lemma cpu_in_range_body_events:
  assumes "random_contract (metrics e)"
  shows "list_all cpu_in_range (published (body_events cfg e st))"
proof (cases "get_cpu_usage cfg (metrics e)")
  case (Inl msg)
  then show ?thesis
    by (simp add: body_events_def cpu_in_range_def split: option.splits)
next
  case (Inr v)
  with assms have "0 \<le> v \<and> v \<le> 100" by (rule get_cpu_usage_range)
  with Inr show ?thesis
    by (simp add: body_events_def cpu_in_range_def cpu_in_range_handling_events)
qed

lemma cpu_in_range_cycle:
  "random_contract (metrics e) \<Longrightarrow> list_all cpu_in_range (published (trace st)) \<Longrightarrow>
   list_all cpu_in_range (published (trace (monitoring_cycle cfg e st)))"
  by (simp add: monitoring_cycle_def sleep_until_next_check_def Let_def
      cpu_in_range_body_events cpu_in_range_def split: option.splits)

lemma cpu_in_range_run:
  "list_all (\<lambda>e. random_contract (metrics e)) es \<Longrightarrow>
   list_all cpu_in_range (published (trace st)) \<Longrightarrow>
   list_all cpu_in_range (published (trace (run_cycles cfg es st)))"
  by (induction es arbitrary: st) (simp_all add: cpu_in_range_cycle)

lemma metrics_mixed_fields [simp]:
  "custom_query metrics_mixed IdleRateByInstance5m = PromResult [Parsed (Fin 150)]"
  "custom_query metrics_mixed IdleRate5m = PromResult [Parsed (Fin 50)]"
  "random_contract metrics_mixed"
  "get_cpu_usage demo_config metrics_mixed = Inr 50"
  by (simp_all add: metrics_mixed_def metrics_of_def random_contract_def unit_draw_def
        get_cpu_usage_def queries_def)

lemma metrics_mixed_synthetic:
  "raw_fallback metrics_mixed = 20" "simulation metrics_mixed = Inr 22"
  by (simp_all add: metrics_mixed_def metrics_of_def raw_fallback_def simulation_def
        py_fmod_def uniform_def SPIKE_SIMULATION_CHANCE_def)

text \<open>
  C6, as the code has it. With \<open>random.random()\<close> drawing from the half-open unit
  interval: \<open>monitor_cpu_once\<close> either raises, publishing nothing (the sampling and the
  \<open>print\<close> of its \<open>except\<close> branch both raised), or returns and publishes one record,
  whose value is the returned one and lies between 0 and 100; a query result is accepted only when it lies in that range; with a connection, the
  value of a cycle is the first accepted query result when there is one, so an
  out-of-range result makes the loop try the next query; only when no query gives an
  accepted result is the value a synthetic one (the time-based value of the raw
  fallback, or the simulation); and every \<open>cpu_usage\<close> published in a run lies between
  0 and 100.
\<close>

theorem sampled_values_in_range:
  "(random_contract m \<longrightarrow>
      (\<exists>x msg. get_cpu_usage cfg m = Inl x \<and> error_print m = Some msg
          \<and> monitor_cpu_once cfg m ct st = Inl msg)
      \<or> (\<exists>d v spike st'. monitor_cpu_once cfg m ct st = Inr ((spike, v), st')
          \<and> new_events st st' = [Publish d] \<and> cpu_value d = Some v
          \<and> 0 \<le> v \<and> v \<le> 100))
   \<and> (accepted_value r = Some a \<longrightarrow> 0 \<le> a \<and> a \<le> 100)
   \<and> (prom cfg \<and> try_queries m queries = Some a \<longrightarrow>
        get_cpu_usage cfg m = Inr a
        \<and> (\<exists>q\<in>set queries. accepted_value (custom_query m q) = Some a))
   \<and> (try_queries m queries = None \<longrightarrow>
        get_cpu_usage cfg m = Inr (raw_fallback m) \<or> get_cpu_usage cfg m = simulation m)
   \<and> (list_all (\<lambda>e. random_contract (metrics e)) es
        \<and> list_all cpu_in_range (published (trace st)) \<longrightarrow>
        list_all cpu_in_range (published (trace (run_cycles cfg es st))))"
proof (intro conjI impI)
  assume "random_contract m"
  then show "(\<exists>x msg. get_cpu_usage cfg m = Inl x \<and> error_print m = Some msg
          \<and> monitor_cpu_once cfg m ct st = Inl msg)
      \<or> (\<exists>d v spike st'. monitor_cpu_once cfg m ct st = Inr ((spike, v), st')
          \<and> new_events st st' = [Publish d] \<and> cpu_value d = Some v
          \<and> 0 \<le> v \<and> v \<le> 100)"
    by (rule monitor_cpu_once_range)
next
  assume "accepted_value r = Some a"
  then show "0 \<le> a" and "a \<le> 100"
    by (simp_all add: accepted_value_range)
next
  assume h: "prom cfg \<and> try_queries m queries = Some a"
  then show "get_cpu_usage cfg m = Inr a" by (simp add: get_cpu_usage_def)
  from h show "\<exists>q\<in>set queries. accepted_value (custom_query m q) = Some a"
    using try_queries_range by blast
next
  assume "try_queries m queries = None"
  then show "get_cpu_usage cfg m = Inr (raw_fallback m) \<or> get_cpu_usage cfg m = simulation m"
    by (rule get_cpu_usage_synthetic)
next
  assume "list_all (\<lambda>e. random_contract (metrics e)) es
        \<and> list_all cpu_in_range (published (trace st))"
  then show "list_all cpu_in_range (published (trace (run_cycles cfg es st)))"
    by (simp add: cpu_in_range_run)
qed

text \<open>
  The theorem at a source whose first query answers 150 and whose other queries answer
  50, and at a source without any usable answer.
\<close>

theorem sampled_values_in_range_witness:
  "random_contract metrics_mixed
   \<and> map_sum id fst (monitor_cpu_once demo_config metrics_mixed ''Tue Nov  3 12:00:00 2026'' demo_state)
       = Inr (False, 50)
   \<and> map_sum id (\<lambda>r. map cpu_value (published (new_events demo_state (snd r))))
        (monitor_cpu_once demo_config metrics_mixed ''Tue Nov  3 12:00:00 2026'' demo_state)
       = Inr [Some 50]
   \<and> accepted_value (PromResult [Parsed (Fin 50)]) = Some 50
   \<and> accepted_value (PromResult [Parsed (Fin 150)]) = None
   \<and> prom demo_config \<and> try_queries metrics_mixed queries = Some 50
   \<and> try_queries metrics_broken queries = None
   \<and> get_cpu_usage demo_config metrics_broken = simulation metrics_broken
   \<and> list_all (\<lambda>e. random_contract (metrics e)) [demo_cycle metrics_mixed 1000 diag_ok docker_ok]
   \<and> list_all cpu_in_range (published (trace demo_state))
   \<and> list_all cpu_in_range (published (trace
        (run_cycles demo_config [demo_cycle metrics_mixed 1000 diag_ok docker_ok] demo_state)))"
  using sampled_values_in_range[of metrics_mixed demo_config "''Tue Nov  3 12:00:00 2026''" demo_state
          "PromResult [Parsed (Fin 50)]" 50 "[demo_cycle metrics_mixed 1000 diag_ok docker_ok]"]
        sampled_values_in_range[of metrics_broken demo_config "''Tue Nov  3 12:00:00 2026''" demo_state]
  by (simp add: monitor_cpu_once_result queries_def metrics_broken_def metrics_of_def
        get_cpu_usage_def)

text \<open>
  The claim as the specification words it (an out-of-range value of the metric source
  is replaced by the synthetic fallback for that cycle) fails: when the first query
  answers 150 and the second 50, the value of the cycle is the 50 of the second query,
  neither the 20 of the raw fallback nor the 22 of the simulation.
\<close>

theorem out_of_range_value_replaced_by_query_counterexample:
  "custom_query metrics_mixed IdleRateByInstance5m = PromResult [Parsed (Fin 150)]
   \<and> get_cpu_usage demo_config metrics_mixed = Inr 50
   \<and> raw_fallback metrics_mixed = 20
   \<and> simulation metrics_mixed = Inr 22"
  by (simp add: metrics_mixed_synthetic)

subsection \<open>Configuration\<close>

lemma py_int_80: "py_int ''80'' = Some 80"
  by (simp add: py_int_def strip_def is_space_def is_digit_def)

lemma py_int_90: "py_int ''90'' = Some 90"
  by (simp add: py_int_def strip_def is_space_def is_digit_def)

text \<open>
  C8, as the code has it: the threshold is read from the key \<open>CPU_THRESHOLD\<close>, with 80
  when the key is unset, and the container name from \<open>CONTAINER_NAME\<close>, with
  \<open>test-container\<close> when unset; apart from the two keys of the credentials no other
  key is read; the monitoring interval is the constant 30 and, whatever the
  configuration, a spike is handled exactly when more than 120 seconds have passed
  since \<open>last_spike_time\<close>.
\<close>

theorem configuration_keys_and_defaults:
  "(environ ''CPU_THRESHOLD'' = None \<longrightarrow>
      map_option THRESHOLD (load_config environ p) = Some 80)
   \<and> (environ ''CPU_THRESHOLD'' = Some t \<longrightarrow>
      map_option THRESHOLD (load_config environ p) = py_int t)
   \<and> (load_config environ p = Some cfg \<longrightarrow>
      CONTAINER_NAME cfg =
        (case environ ''CONTAINER_NAME'' of None \<Rightarrow> ''test-container'' | Some n \<Rightarrow> n))
   \<and> (key \<notin> set [''CPU_THRESHOLD'', ''CONTAINER_NAME'', ''OPENAI_API_KEY'', ''SLACK_WEBHOOK_URL'']
        \<longrightarrow> load_config (environ(key \<mapsto> x)) p = load_config environ p)
   \<and> MONITORING_INTERVAL = 30
   \<and> (get_cpu_usage cfg' (metrics e) = Inr v \<and> real_of_int (THRESHOLD cfg') < v \<longrightarrow>
        (Diagnose \<in> set (new_events st (cycle_body cfg' e st)))
          = (now e - last_spike_time st > 120))"
proof (intro conjI impI)
  assume "environ ''CPU_THRESHOLD'' = None"
  then show "map_option THRESHOLD (load_config environ p) = Some 80"
    by (simp add: load_config_def getenv_def py_int_80)
next
  assume "environ ''CPU_THRESHOLD'' = Some t"
  then show "map_option THRESHOLD (load_config environ p) = py_int t"
    by (simp add: load_config_def getenv_def split: option.splits)
next
  assume "load_config environ p = Some cfg"
  then show "CONTAINER_NAME cfg =
        (case environ ''CONTAINER_NAME'' of None \<Rightarrow> ''test-container'' | Some n \<Rightarrow> n)"
    by (auto simp add: load_config_def getenv_def split: option.splits)
next
  assume "key \<notin> set [''CPU_THRESHOLD'', ''CONTAINER_NAME'', ''OPENAI_API_KEY'', ''SLACK_WEBHOOK_URL'']"
  then have eqs: "(environ(key \<mapsto> x)) ''CPU_THRESHOLD'' = environ ''CPU_THRESHOLD''"
    "(environ(key \<mapsto> x)) ''CONTAINER_NAME'' = environ ''CONTAINER_NAME''"
    "(environ(key \<mapsto> x)) ''OPENAI_API_KEY'' = environ ''OPENAI_API_KEY''"
    "(environ(key \<mapsto> x)) ''SLACK_WEBHOOK_URL'' = environ ''SLACK_WEBHOOK_URL''"
    by auto
  show "load_config (environ(key \<mapsto> x)) p = load_config environ p"
    by (simp add: load_config_def getenv_def eqs del: fun_upd_apply cong: option.case_cong)
next
  show "MONITORING_INTERVAL = 30" by (simp add: MONITORING_INTERVAL_def)
next
  assume "get_cpu_usage cfg' (metrics e) = Inr v \<and> real_of_int (THRESHOLD cfg') < v"
  then show "(Diagnose \<in> set (new_events st (cycle_body cfg' e st)))
          = (now e - last_spike_time st > 120)"
    by (simp add: body_events_def handling_events_def)
qed

text \<open>
  The theorem at the empty environment, at \<open>CPU_THRESHOLD=90\<close>, and at a spike 30
  seconds after the last handled one.
\<close>

theorem configuration_keys_and_defaults_witness:
  "map_option THRESHOLD (load_config Map.empty True) = Some 80
   \<and> map_option THRESHOLD (load_config [''CPU_THRESHOLD'' \<mapsto> ''90''] True) = Some 90
   \<and> map_option CONTAINER_NAME (load_config Map.empty True) = Some ''test-container''
   \<and> load_config (Map.empty(''COOLDOWN_SECONDS'' \<mapsto> ''10'')) True = load_config Map.empty True
   \<and> (Diagnose \<in> set (new_events (demo_state\<lparr>last_spike_time := 1000\<rparr>)
         (cycle_body demo_config (demo_cycle (metrics_of 95) 1030 diag_ok docker_ok)
            (demo_state\<lparr>last_spike_time := 1000\<rparr>)))) = False"
  using configuration_keys_and_defaults[of Map.empty True "''90''" demo_config "''COOLDOWN_SECONDS''" "''10''" demo_config
          "demo_cycle (metrics_of 95) 1030 diag_ok docker_ok" 95 "demo_state\<lparr>last_spike_time := 1000\<rparr>"]
        configuration_keys_and_defaults[of "[''CPU_THRESHOLD'' \<mapsto> ''90'']" True "''90''"]
  by (simp add: py_int_90 load_config_def getenv_def py_int_80)

text \<open>
  The claim as the specification words it (the configuration is read from the keys
  \<open>THRESHOLD_PERCENT\<close>, \<open>SUBJECT_NAME\<close>, \<open>SAMPLING_INTERVAL_SECONDS\<close> and
  \<open>COOLDOWN_SECONDS\<close>) fails: an environment that sets these four keys to 50, web, 10
  and 10 gives the default configuration.
\<close>

theorem specification_keys_ignored_counterexample:
  "load_config spec_environ True = Some demo_config
   \<and> THRESHOLD demo_config = 80
   \<and> CONTAINER_NAME demo_config = ''test-container''"
  by (simp add: load_config_def getenv_def py_int_80 spec_environ_def demo_config_def)

end
